theory Spec2Isabelle
  imports Complex_Main
begin

section \<open>Values of the scene graph\<close>

text \<open>
  The viewer (\<^verbatim>\<open>src/basic/main.js\<close>) is a single-threaded JavaScript program over the
  three.js scene graph. Numbers are JavaScript doubles; they are modelled as reals, so a
  division by zero (which JavaScript answers with an infinity or NaN) lies outside the model
  and is excluded by hypothesis wherever it could occur. Colours are the hexadecimal
  integers the code passes to \<^verbatim>\<open>Color.set\<close>.
\<close>

type_synonym color = nat

datatype vec2 = Vector2 (x2: real) (y2: real)

datatype vec3 = Vector3 (vx: real) (vy: real) (vz: real)

datatype box3 = Box3 (bmin: vec3) (bmax: vec3)

definition vadd :: "vec3 \<Rightarrow> vec3 \<Rightarrow> vec3" where
  "vadd a b = Vector3 (vx a + vx b) (vy a + vy b) (vz a + vz b)"

definition vsub :: "vec3 \<Rightarrow> vec3 \<Rightarrow> vec3" where
  "vsub a b = Vector3 (vx a - vx b) (vy a - vy b) (vz a - vz b)"

definition multiplyScalar :: "vec3 \<Rightarrow> real \<Rightarrow> vec3" where
  "multiplyScalar a k = Vector3 (vx a * k) (vy a * k) (vz a * k)"


definition box_translate :: "box3 \<Rightarrow> vec3 \<Rightarrow> box3" where
  "box_translate b p = Box3 (vadd (bmin b) p) (vadd (bmax b) p)"

definition getCenter :: "box3 \<Rightarrow> vec3" where
  "getCenter b = multiplyScalar (vadd (bmin b) (bmax b)) 0.5"

definition getSize :: "box3 \<Rightarrow> vec3" where
  "getSize b = Vector3 (vx (bmax b) - vx (bmin b)) (vy (bmax b) - vy (bmin b))
                       (vz (bmax b) - vz (bmin b))"

text \<open>
  JavaScript objects are shared by reference: the scene, the basemap manager and the
  selection all point at the same meshes, and several meshes may point at one material.
  Objects and materials therefore live in two stores. Their addresses keep the objects the
  asset loader hands over (\<open>Loaded\<close>) apart from those the viewer constructs itself
  (\<open>Created\<close>), as two objects of a JavaScript heap are never the same object.
\<close>

datatype obj_ref = Loaded nat | Created nat

datatype mat_ref = LoadedMat nat | CreatedMat nat

datatype wrapping = ClampToEdgeWrapping | RepeatWrapping

datatype side = FrontSide | DoubleSide

datatype geometry = PlaneGeometry real real

record texture =
  image_src :: string
  wrapS :: wrapping
  wrapT :: wrapping
  repeat_uv :: "real \<times> real"

text \<open>
  A material. \<open>emissive\<close> is \<open>None\<close> for a material without that property (a
  \<^verbatim>\<open>MeshBasicMaterial\<close>, or an array of materials, whose \<^verbatim>\<open>.emissive\<close> is undefined).
\<close>

record material =
  map_texture :: "texture option"
  emissive :: "color option"
  needsUpdate :: bool
  material_side :: side

text \<open>
  A scene node. \<open>material\<close> is \<open>None\<close> for a node without one (a group, a light).
  \<open>userData\<close> holds the key/value pairs in insertion order, values as they print.
\<close>

record object3d =
  name :: string
  userData :: "(string \<times> string) list"
  isMesh :: bool
  geometry :: "geometry option"
  material :: "mat_ref option"
  position :: vec3
  rotation_x :: real
  visible :: bool
  castShadow :: bool
  receiveShadow :: bool

text \<open>
  The loaded glTF scene, \<^verbatim>\<open>this.model\<close>: its root group, the root's descendants in
  traversal order, and the axis-aligned box its geometry occupies when the root sits at the
  origin. \<^verbatim>\<open>Box3.setFromObject\<close> answers the world box, which is that box moved by the
  root's position (the scene itself is never transformed). A model without any geometry has
  the empty box with infinite corners and is outside this model.
\<close>

record model3d =
  root :: obj_ref
  nodes :: "obj_ref list"
  extent :: box3

record light =
  color :: color
  intensity :: real

record directional_light = light +
  light_position :: vec3
  light_castShadow :: bool

text \<open>
  The hemisphere light. three.js keeps the sky colour of a \<^verbatim>\<open>HemisphereLight\<close> in the
  inherited \<open>color\<close> property and the ground colour in \<open>groundColor\<close>; the class
  declares no \<^verbatim>\<open>skyColor\<close>. The field \<open>skyColor\<close> is what reading
  \<^verbatim>\<open>hemisphereLight.skyColor\<close> yields: \<open>None\<close> for undefined.
\<close>

record hemisphere_light = light +
  groundColor :: color
  skyColor :: "color option"

record camera =
  fov :: real
  aspect :: real
  near :: real
  far :: real
  camera_position :: vec3
  lookAt :: "vec3 option"

record controls =
  target :: vec3
  enableDamping :: bool
  dampingFactor :: real
  maxPolarAngle :: real
  minDistance :: real
  maxDistance :: real

datatype scene_child = AmbientLightNode | DirectionalLightNode | HemisphereLightNode
  | Object obj_ref

record info_panel =
  panel_display :: string
  object_name :: string
  object_details :: string

text \<open>
  The loading overlay: whether its class list holds \<^verbatim>\<open>hidden\<close>, and the message of the
  error markup once \<^verbatim>\<open>showError\<close> has replaced its content.
\<close>

record loading_overlay =
  overlay_hidden :: bool
  overlay_error :: "string option"

text \<open>
  What the page and the asset loader supply: the window's size, the two page elements, and
  the objects and materials of the assets. The loader's objects occupy the \<open>Loaded\<close>
  addresses of the stores from the start; the viewer reaches them once the model is loaded.
\<close>

record page =
  innerWidth :: real
  innerHeight :: real
  loaded_objects :: "obj_ref \<Rightarrow> object3d"
  loaded_materials :: "mat_ref \<Rightarrow> material"
  page_infoPanel :: info_panel
  page_loadingOverlay :: loading_overlay

section \<open>The viewer state\<close>

text \<open>
  The fields of \<^verbatim>\<open>SimpleModelViewer\<close> and of the \<^verbatim>\<open>BasemapManager\<close> it owns
  (\<open>mapMesh\<close>, \<open>currentType\<close>; the manager's \<^verbatim>\<open>scene\<close> is the viewer's scene), the
  two stores, the count of objects the viewer has constructed, and the two page elements the
  code writes to. Of the raycaster the state keeps what \<^verbatim>\<open>setFromCamera\<close> last made its
  ray from, the pointer coordinates and the camera (\<open>None\<close> before the first call). The
  renderer and the loaders are three.js objects whose inner state the viewer's code never
  reads; they are not part of the state.
\<close>

record viewer =
  isNight :: bool
  showOSM :: bool
  basemapType :: string
  model :: "model3d option"
  initialized :: bool
  scene_background :: "color option"
  scene_children :: "scene_child list"
  mapMesh :: "obj_ref option"
  currentType :: "string option"
  camera :: camera
  controls :: controls
  ambientLight :: light
  directionalLight :: directional_light
  hemisphereLight :: hemisphere_light
  mouse :: vec2
  raycaster :: "(vec2 \<times> camera) option"
  selectedObject :: "obj_ref option"
  objects :: "obj_ref \<Rightarrow> object3d"
  materials :: "mat_ref \<Rightarrow> material"
  created :: nat
  infoPanel :: info_panel
  loadingOverlay :: loading_overlay

text \<open>
  A statement that may throw. JavaScript keeps every assignment made before the throw, so
  an exception carries the state it leaves behind.
\<close>

datatype js_error = TypeError | LoadError

datatype result = Ok viewer | Throw js_error viewer

definition state_of :: "result \<Rightarrow> viewer" where
  "state_of r = (case r of Ok s \<Rightarrow> s | Throw e s \<Rightarrow> s)"

definition and_then :: "result \<Rightarrow> (viewer \<Rightarrow> result) \<Rightarrow> result" where
  "and_then r f = (case r of Ok s \<Rightarrow> f s | Throw e s \<Rightarrow> Throw e s)"

text \<open>
  \<^verbatim>\<open>OrbitControls.update()\<close> belongs to the three.js add-ons, not to this repository: it
  may move and turn the camera about the target (damping, distance and angle limits). It is
  a parameter of every function that calls it; \<open>OrbitControls_update\<close> below is the
  controller at rest.
\<close>

type_synonym orbit_update = "controls \<Rightarrow> camera \<Rightarrow> controls \<times> camera"

definition orbit_step :: "orbit_update \<Rightarrow> viewer \<Rightarrow> viewer" where
  "orbit_step upd s =
     (let (c, k) = upd (controls s) (camera s) in s\<lparr>controls := c, camera := k\<rparr>)"

text \<open>
  What \<^verbatim>\<open>update()\<close> does while no pointer input is pending (no rotation, pan or zoom left
  to apply), for a camera whose up vector is the y axis and a controller without azimuth
  limits and with the least polar angle 0, as \<^verbatim>\<open>init\<close> leaves them. The offset of the
  camera from the target is read in spherical coordinates: its length, its polar angle
  from the y axis, and its azimuth, of which only the sine and the cosine are needed (those
  of \<^verbatim>\<open>atan2(x, z)\<close>, which is 0 when both are 0). The
  polar angle is held between 0 and \<open>maxPolarAngle\<close> and then, by \<^verbatim>\<open>makeSafe\<close>, between
  \<open>0.000001\<close> and \<open>pi - 0.000001\<close>; the length is held between \<open>minDistance\<close> and
  \<open>maxDistance\<close>. The camera is put back at the target plus that offset and aimed at the
  target. The target stays.
\<close>

definition clampDistance :: "controls \<Rightarrow> real \<Rightarrow> real" where
  "clampDistance c d = max (minDistance c) (min (maxDistance c) d)"

definition vlength :: "vec3 \<Rightarrow> real" where
  "vlength v = sqrt ((vx v)\<^sup>2 + (vy v)\<^sup>2 + (vz v)\<^sup>2)"

definition azimuth_sin :: "vec3 \<Rightarrow> real" where
  "azimuth_sin v =
     (let h = sqrt ((vx v)\<^sup>2 + (vz v)\<^sup>2) in if h = 0 then 0 else vx v / h)"

definition azimuth_cos :: "vec3 \<Rightarrow> real" where
  "azimuth_cos v =
     (let h = sqrt ((vx v)\<^sup>2 + (vz v)\<^sup>2) in if h = 0 then 1 else vz v / h)"

definition polar_angle :: "controls \<Rightarrow> vec3 \<Rightarrow> real" where
  "polar_angle c v =
     (let phi = (if vlength v = 0 then 0 else arccos (vy v / vlength v));
          phi1 = max 0 (min (maxPolarAngle c) phi)
      in max 0.000001 (min (pi - 0.000001) phi1))"

definition orbit_offset :: "controls \<Rightarrow> vec3 \<Rightarrow> vec3" where
  "orbit_offset c v =
     (let phi = polar_angle c v;
          radius = clampDistance c (vlength v)
      in Vector3 (sin phi * radius * azimuth_sin v) (cos phi * radius)
                 (sin phi * radius * azimuth_cos v))"

definition OrbitControls_update :: orbit_update where
  "OrbitControls_update c k =
     (let offset = orbit_offset c (vsub (camera_position k) (target c))
      in (c, k\<lparr>camera_position := vadd (target c) offset, lookAt := Some (target c)\<rparr>))"

section \<open>Camera fitting: \<^verbatim>\<open>initializeModel\<close>\<close>

definition setFromObject :: "model3d \<Rightarrow> viewer \<Rightarrow> box3" where
  "setFromObject m s = box_translate (extent m) (position (objects s (root m)))"

definition set_position_y :: "obj_ref \<Rightarrow> real \<Rightarrow> viewer \<Rightarrow> viewer" where
  "set_position_y r v s =
     (let ob = objects s r; p = position ob
      in s\<lparr>objects := (objects s)(r := ob\<lparr>position := Vector3 (vx p) v (vz p)\<rparr>)\<rparr>)"

text \<open>Lines 163 to 166: the first box, and the assignment to \<^verbatim>\<open>this.model.position.y\<close>.\<close>

definition groundModel :: "model3d \<Rightarrow> viewer \<Rightarrow> viewer" where
  "groundModel m s =
     (let box = setFromObject m s;
          yOffset = - vy (bmin box)
      in set_position_y (root m) yOffset s)"

text \<open>
  Lines 168 to 180: the second box, the distance, the camera's position and aim, and the
  navigation target. \<^verbatim>\<open>updateProjectionMatrix\<close> recomputes a matrix derived from
  \<open>fov\<close>, \<open>aspect\<close>, \<open>near\<close> and \<open>far\<close>, none of which changes here.
\<close>

definition fitCamera :: "model3d \<Rightarrow> viewer \<Rightarrow> viewer" where
  "fitCamera m s =
     (let newBox = setFromObject m s;
          center = getCenter newBox;
          size = getSize newBox;
          maxDim = max (max (vx size) (vy size)) (vz size);
          fov_rad = fov (camera s) * (pi / 180);
          distance = \<bar>maxDim / sin (fov_rad / 2)\<bar> * 1.2;
          s1 = s\<lparr>camera := (camera s)
                 \<lparr>camera_position := Vector3 (vx center + distance * 0.5)
                     (vy center + distance * 0.8) (vz center + distance * 0.5),
                  lookAt := Some center\<rparr>\<rparr>
      in s1\<lparr>controls := (controls s1)\<lparr>target := center\<rparr>\<rparr>)"

text \<open>Lines 183 to 188: \<^verbatim>\<open>traverse\<close> visits the root and then every descendant.\<close>

definition enable_shadow :: "obj_ref \<Rightarrow> viewer \<Rightarrow> viewer" where
  "enable_shadow r s =
     (if isMesh (objects s r)
      then s\<lparr>objects := (objects s)
             (r := (objects s r)\<lparr>castShadow := True, receiveShadow := True\<rparr>)\<rparr>
      else s)"

definition traverse_shadows :: "model3d \<Rightarrow> viewer \<Rightarrow> viewer" where
  "traverse_shadows m s = fold enable_shadow (root m # nodes m) s"

definition initializeModel :: "orbit_update \<Rightarrow> viewer \<Rightarrow> viewer" where
  "initializeModel upd s =
     (case model s of
        None \<Rightarrow> s
      | Some m \<Rightarrow>
          if initialized s then s
          else (traverse_shadows m (orbit_step upd (fitCamera m (groundModel m s))))
                 \<lparr>initialized := True\<rparr>)"

definition hideLoadingScreen :: "viewer \<Rightarrow> viewer" where
  "hideLoadingScreen s = s\<lparr>loadingOverlay := (loadingOverlay s)\<lparr>overlay_hidden := True\<rparr>\<rparr>"

definition showError :: "string \<Rightarrow> viewer \<Rightarrow> viewer" where
  "showError message s =
     s\<lparr>loadingOverlay := (loadingOverlay s)\<lparr>overlay_error := Some message\<rparr>\<rparr>"

text \<open>
  \<^verbatim>\<open>loadModel\<close> from the point where \<^verbatim>\<open>loadAsync\<close> settles: with the glTF scene, or
  with a failure that the \<^verbatim>\<open>catch\<close> block reports.
\<close>

datatype gltf_outcome = GltfLoaded model3d | GltfFailed

text \<open>Lines 150 and 151: the model is stored and added to the scene.\<close>

definition addModel :: "model3d \<Rightarrow> viewer \<Rightarrow> viewer" where
  "addModel gltf_scene s =
     s\<lparr>model := Some gltf_scene,
       scene_children := scene_children s @ [Object (root gltf_scene)]\<rparr>"

definition loadModel :: "orbit_update \<Rightarrow> gltf_outcome \<Rightarrow> viewer \<Rightarrow> viewer" where
  "loadModel upd outcome s =
     (case outcome of
        GltfLoaded gltf_scene \<Rightarrow>
          hideLoadingScreen (initializeModel upd (addModel gltf_scene s))
      | GltfFailed \<Rightarrow> showError ''Failed to load 3D model'' s)"

section \<open>Lighting and background\<close>

definition HemisphereLight :: "color \<Rightarrow> color \<Rightarrow> real \<Rightarrow> hemisphere_light" where
  "HemisphereLight sky ground i =
     \<lparr>color = sky, intensity = i, groundColor = ground, skyColor = None\<rparr>"

definition updateBackground :: "viewer \<Rightarrow> viewer" where
  "updateBackground s =
     (let dayColor = 0x87CEEB; nightColor = 0x0a1929
      in s\<lparr>scene_background := Some (if isNight s then nightColor else dayColor)\<rparr>)"

text \<open>
  \<^verbatim>\<open>updateLighting\<close> assigns in the order of the source. The fifth statement of either
  branch calls \<^verbatim>\<open>set\<close> on \<^verbatim>\<open>this.hemisphereLight.skyColor\<close>; when that property is
  undefined the call throws a TypeError and the two statements after it do not run.
\<close>

definition hemisphere_preset :: "color \<Rightarrow> color \<Rightarrow> real \<Rightarrow> viewer \<Rightarrow> result" where
  "hemisphere_preset sky ground i s =
     (case skyColor (hemisphereLight s) of
        None \<Rightarrow> Throw TypeError s
      | Some old \<Rightarrow>
          Ok (s\<lparr>hemisphereLight := (hemisphereLight s)
                 \<lparr>skyColor := Some sky, groundColor := ground, intensity := i\<rparr>\<rparr>))"

definition updateLighting :: "viewer \<Rightarrow> result" where
  "updateLighting s =
     (if isNight s then
        (let s1 = s\<lparr>ambientLight := (ambientLight s)\<lparr>intensity := 0.1\<rparr>\<rparr>;
             s2 = s1\<lparr>directionalLight := (directionalLight s1)
                      \<lparr>intensity := 0.3, light_position := Vector3 (- 100) 80 (- 50),
                       color := 0x6495ED\<rparr>\<rparr>
         in hemisphere_preset 0x0a1929 0x1a1a2e 0.2 s2)
      else
        (let s1 = s\<lparr>ambientLight := (ambientLight s)\<lparr>intensity := 0.3\<rparr>\<rparr>;
             s2 = s1\<lparr>directionalLight := (directionalLight s1)
                      \<lparr>intensity := 1.5, light_position := Vector3 100 150 50,
                       color := 0xffffff\<rparr>\<rparr>
         in hemisphere_preset 0x87CEEB 0x6b5d47 0.5 s2))"

text \<open>The listener of the night-mode checkbox (lines 207 to 211).\<close>

definition nightModeChange :: "bool \<Rightarrow> viewer \<Rightarrow> result" where
  "nightModeChange checked s = updateLighting (updateBackground (s\<lparr>isNight := checked\<rparr>))"

section \<open>Construction\<close>

text \<open>
  The state the constructor leaves: the fields of lines 66 to 70, the scene, camera and
  controls of \<^verbatim>\<open>init\<close>, the three lights of \<^verbatim>\<open>setupLighting\<close> in the order they are
  added to the scene, the background of \<^verbatim>\<open>updateBackground\<close>, the fields of
  \<^verbatim>\<open>initInteraction\<close>, and the first \<^verbatim>\<open>controls.update()\<close> of \<^verbatim>\<open>animate\<close>. The model
  load it starts settles later (\<open>loadModel\<close>).
\<close>

definition SimpleModelViewer :: "orbit_update \<Rightarrow> page \<Rightarrow> viewer" where
  "SimpleModelViewer upd pg =
     orbit_step upd (updateBackground
       \<lparr>isNight = False, showOSM = False, basemapType = ''osm'', model = None,
        initialized = False, scene_background = None,
        scene_children = [AmbientLightNode, DirectionalLightNode, HemisphereLightNode],
        mapMesh = None, currentType = None,
        camera = \<lparr>fov = 75, aspect = innerWidth pg / innerHeight pg, near = 0.1, far = 1000,
                  camera_position = Vector3 0 100 200, lookAt = None\<rparr>,
        controls = \<lparr>target = Vector3 0 0 0, enableDamping = True, dampingFactor = 0.05,
                    maxPolarAngle = pi / 2, minDistance = 50, maxDistance = 1000\<rparr>,
        ambientLight = \<lparr>color = 0xffffff, intensity = 0.3\<rparr>,
        directionalLight = \<lparr>color = 0xffffff, intensity = 1.5,
                            light_position = Vector3 100 150 50, light_castShadow = True\<rparr>,
        hemisphereLight = HemisphereLight 0x87CEEB 0x6b5d47 0.5,
        mouse = Vector2 0 0, raycaster = None, selectedObject = None,
        objects = loaded_objects pg, materials = loaded_materials pg, created = 0,
        infoPanel = page_infoPanel pg, loadingOverlay = page_loadingOverlay pg\<rparr>)"

section \<open>The basemap manager\<close>

definition basemap_url :: "string \<Rightarrow> string" where
  "basemap_url type =
     (if type = ''satellite''
      then ''https://server.arcgisonline.com/ArcGIS/rest/services/World_Imagery/MapServer/tile/0/0/0''
      else if type = ''dark'' then ''https://a.basemaps.cartocdn.com/dark_all/0/0/0.png''
      else ''https://a.tile.openstreetmap.org/0/0/0.png'')"

text \<open>The texture \<^verbatim>\<open>TextureLoader.load\<close> passes to its success callback.\<close>

definition loaded_texture :: "string \<Rightarrow> texture" where
  "loaded_texture url =
     \<lparr>image_src = url, wrapS = ClampToEdgeWrapping, wrapT = ClampToEdgeWrapping,
      repeat_uv = (1, 1)\<rparr>"

text \<open>Lines 30 and 31: the texture is set to repeat 20 by 20 times.\<close>

definition tile_texture :: "texture \<Rightarrow> texture" where
  "tile_texture tex =
     tex\<lparr>wrapS := RepeatWrapping, wrapT := RepeatWrapping, repeat_uv := (20, 20)\<rparr>"

text \<open>
  \<^verbatim>\<open>createOrUpdateMap\<close>. The first branch assigns through \<^verbatim>\<open>this.mapMesh.material\<close>, which
  throws if the mesh has no material. The second constructs the material and the mesh at
  fresh addresses and appends the mesh to the scene.
\<close>

definition createOrUpdateMap :: "texture \<Rightarrow> viewer \<Rightarrow> result" where
  "createOrUpdateMap tex s =
     (case mapMesh s of
        Some mesh \<Rightarrow>
          (case material (objects s mesh) of
             None \<Rightarrow> Throw TypeError s
           | Some mat \<Rightarrow>
               Ok (s\<lparr>materials := (materials s)
                    (mat := (materials s mat)\<lparr>map_texture := Some tex, needsUpdate := True\<rparr>)\<rparr>))
      | None \<Rightarrow>
          (let size = 10000;
               mat = CreatedMat (created s);
               mesh = Created (created s);
               s1 = s\<lparr>materials := (materials s)
                      (mat := \<lparr>map_texture = Some tex, emissive = None, needsUpdate = False,
                               material_side = DoubleSide\<rparr>)\<rparr>;
               s2 = s1\<lparr>objects := (objects s1)
                       (mesh := \<lparr>name = [], userData = [], isMesh = True,
                                 geometry = Some (PlaneGeometry size size), material = Some mat,
                                 position = Vector3 0 0 0, rotation_x = 0, visible = True,
                                 castShadow = False, receiveShadow = False\<rparr>),
                      created := created s1 + 1, mapMesh := Some mesh\<rparr>;
               s3 = s2\<lparr>objects := (objects s2)
                       (mesh := (objects s2 mesh)\<lparr>rotation_x := - pi / 2\<rparr>)\<rparr>;
               s4 = set_position_y mesh (- 0.01) s3
           in Ok (s4\<lparr>scene_children := scene_children s4 @ [Object mesh]\<rparr>)))"

text \<open>
  \<^verbatim>\<open>loadBasemap\<close>, by how the fetch of its URL ends. Before the fetch ends the function
  reads and writes nothing of the viewer, so the state it acts on is the one at that moment.
  The promise is rejected by the loader's error callback, fulfilled at the end of the
  success callback, and left pending should that callback throw before \<^verbatim>\<open>resolve\<close>.
\<close>

datatype fetch_outcome = FetchLoaded | FetchFailed

datatype promise = Pending | Fulfilled | Rejected js_error

definition loadBasemap :: "string \<Rightarrow> fetch_outcome \<Rightarrow> viewer \<Rightarrow> promise \<times> viewer" where
  "loadBasemap type outcome s =
     (let url = basemap_url type
      in case outcome of
           FetchFailed \<Rightarrow> (Rejected LoadError, s)
         | FetchLoaded \<Rightarrow>
             (let tex = tile_texture (loaded_texture url)
              in case createOrUpdateMap tex s of
                   Ok s' \<Rightarrow> (Fulfilled, s')
                 | Throw e s' \<Rightarrow> (Pending, s')))"

definition setVisible :: "bool \<Rightarrow> viewer \<Rightarrow> viewer" where
  "setVisible flag s =
     (case mapMesh s of
        None \<Rightarrow> s
      | Some mesh \<Rightarrow> s\<lparr>objects := (objects s)(mesh := (objects s mesh)\<lparr>visible := flag\<rparr>)\<rparr>)"

text \<open>
  Calls of \<^verbatim>\<open>loadBasemap\<close> over time. A call starts a fetch; fetches end in any order, each
  loaded or failed. \<open>inflight\<close> lists the kinds whose fetch has not ended, oldest first;
  \<open>resolved\<close> records, oldest first, the kinds whose fetch ended loaded.
\<close>

datatype basemap_event = CallLoadBasemap string | FetchSettles nat fetch_outcome

record basemap_run =
  inflight :: "string list"
  resolved :: "string list"
  current :: viewer

definition basemap_step :: "basemap_run \<Rightarrow> basemap_event \<Rightarrow> basemap_run" where
  "basemap_step r ev =
     (case ev of
        CallLoadBasemap type \<Rightarrow> r\<lparr>inflight := inflight r @ [type]\<rparr>
      | FetchSettles i outcome \<Rightarrow>
          if i < length (inflight r) then
            (let type = inflight r ! i;
                 (p, s') = loadBasemap type outcome (current r)
             in r\<lparr>inflight := take i (inflight r) @ drop (Suc i) (inflight r),
                  resolved := (if outcome = FetchLoaded then resolved r @ [type]
                               else resolved r),
                  current := s'\<rparr>)
          else r)"

definition basemap_events :: "basemap_event list \<Rightarrow> viewer \<Rightarrow> basemap_run" where
  "basemap_events evs s = foldl basemap_step \<lparr>inflight = [], resolved = [], current = s\<rparr> evs"

text \<open>
  The ground plane after a run that started from the viewer \<open>s\<close>, as the specification
  words it: no mesh while no load has resolved; from the first resolved load on, the one mesh
  constructed then, added to the scene once, carrying the tiled texture of the kind resolved
  last.
\<close>

definition single_ground_mesh :: "viewer \<Rightarrow> basemap_run \<Rightarrow> bool" where
  "single_ground_mesh s r =
     (let t = current r; mesh = Created (created s); mat = CreatedMat (created s)
      in if resolved r = []
         then mapMesh t = None \<and> scene_children t = scene_children s \<and> created t = created s
         else mapMesh t = Some mesh \<and> material (objects t mesh) = Some mat \<and>
              map_texture (materials t mat)
                = Some (tile_texture (loaded_texture (basemap_url (last (resolved r))))) \<and>
              scene_children t = scene_children s @ [Object mesh] \<and>
              created t = created s + 1)"

section \<open>Picking\<close>

text \<open>The value of \<^verbatim>\<open>o.material && o.material.emissive\<close>, \<open>None\<close> when it is falsy.\<close>

definition emissive_of :: "viewer \<Rightarrow> obj_ref \<Rightarrow> color option" where
  "emissive_of s ob =
     (case material (objects s ob) of
        None \<Rightarrow> None
      | Some mat \<Rightarrow> emissive (materials s mat))"

text \<open>
  The call \<^verbatim>\<open>o.material.emissive.set(c)\<close>: a TypeError when \<^verbatim>\<open>o.material\<close> or its
  \<^verbatim>\<open>emissive\<close> is undefined, otherwise the colour of that material is overwritten.
\<close>

definition paint :: "mat_ref \<Rightarrow> color \<Rightarrow> viewer \<Rightarrow> viewer" where
  "paint mat c s =
     s\<lparr>materials := (materials s)(mat := (materials s mat)\<lparr>emissive := Some c\<rparr>)\<rparr>"

definition emissive_set :: "obj_ref \<Rightarrow> color \<Rightarrow> viewer \<Rightarrow> result" where
  "emissive_set ob c s =
     (case material (objects s ob) of
        None \<Rightarrow> Throw TypeError s
      | Some mat \<Rightarrow>
          (case emissive (materials s mat) of
             None \<Rightarrow> Throw TypeError s
           | Some old \<Rightarrow> Ok (paint mat c s)))"

text \<open>Lines 268 to 270 of \<^verbatim>\<open>highlightObject\<close>.\<close>

definition clearHighlight :: "viewer \<Rightarrow> result" where
  "clearHighlight s =
     (case selectedObject s of
        None \<Rightarrow> Ok s
      | Some prev \<Rightarrow>
          if emissive_of s prev \<noteq> None then emissive_set prev 0x000000 s else Ok s)"

text \<open>Lines 272 to 274.\<close>

definition applyHighlight :: "obj_ref \<Rightarrow> viewer \<Rightarrow> result" where
  "applyHighlight ob s =
     (if emissive_of s ob \<noteq> None then emissive_set ob 0xffd700 s else Ok s)"

definition highlightObject :: "obj_ref \<Rightarrow> viewer \<Rightarrow> result" where
  "highlightObject ob s =
     and_then (clearHighlight s) (\<lambda>s1.
     and_then (applyHighlight ob s1) (\<lambda>s2.
     Ok (s2\<lparr>selectedObject := Some ob\<rparr>)))"

text \<open>
  \<^verbatim>\<open>showObjectInfo\<close> writes the name, the attribute list and the display style of the
  info panel, whose three elements the page is taken to hold.
\<close>

definition showObjectInfo :: "obj_ref \<Rightarrow> viewer \<Rightarrow> viewer" where
  "showObjectInfo ob s =
     (let data = userData (objects s ob);
          s1 = s\<lparr>infoPanel := (infoPanel s)
                 \<lparr>object_name := (if name (objects s ob) = [] then ''Unnamed Object''
                                  else name (objects s ob))\<rparr>\<rparr>;
          s2 = s1\<lparr>infoPanel := (infoPanel s1)
                 \<lparr>object_details :=
                    (if length data \<noteq> 0
                     then concat (map (\<lambda>(k, v). ''<div><b>'' @ k @ ''</b>: '' @ v @ ''</div>'') data)
                     else ''<i>No attributes</i>'')\<rparr>\<rparr>
      in s2\<lparr>infoPanel := (infoPanel s2)\<lparr>panel_display := ''block''\<rparr>\<rparr>)"

text \<open>
  \<^verbatim>\<open>onClick\<close>. The pointer position and the canvas rectangle come with the event. The
  raycaster is three.js code; what \<^verbatim>\<open>intersectObjects\<close> returns for the ray through
  \<^verbatim>\<open>this.mouse\<close> is the argument \<open>intersects\<close>, which three.js sorts by distance, nearest
  first.
\<close>

record click_event =
  clientX :: real
  clientY :: real
  rect_left :: real
  rect_top :: real
  rect_width :: real
  rect_height :: real

record intersection =
  hit_distance :: real
  hit_object :: obj_ref

text \<open>Lines 240 and 241: the pointer in normalised device coordinates.\<close>

definition pointer_ndc :: "click_event \<Rightarrow> vec2" where
  "pointer_ndc event =
     Vector2 (((clientX event - rect_left event) / rect_width event) * 2 - 1)
             (- ((clientY event - rect_top event) / rect_height event) * 2 + 1)"

text \<open>Lines 239 to 243: \<^verbatim>\<open>this.mouse\<close> is overwritten, then the raycaster's ray.\<close>

definition aim_ray :: "click_event \<Rightarrow> viewer \<Rightarrow> viewer" where
  "aim_ray event s =
     (let s1 = s\<lparr>mouse := pointer_ndc event\<rparr>
      in s1\<lparr>raycaster := Some (mouse s1, camera s1)\<rparr>)"

definition onClick :: "click_event \<Rightarrow> intersection list \<Rightarrow> viewer \<Rightarrow> result" where
  "onClick event intersects s =
     (let s1 = aim_ray event s
      in if length intersects > 0
         then (let ob = hit_object (intersects ! 0)
               in highlightObject ob (showObjectInfo ob s1))
         else Ok s1)"

text \<open>
  A page without assets, and a navigation controller that leaves the camera alone. For the
  camera \<^verbatim>\<open>init\<close> creates, the controller at rest does the same but for aiming it at
  the target (lemma \<open>constructed_at_rest_still\<close>).
\<close>

definition blank_object :: object3d where
  "blank_object =
     \<lparr>name = [], userData = [], isMesh = False, geometry = None, material = None,
      position = Vector3 0 0 0, rotation_x = 0, visible = True, castShadow = False,
      receiveShadow = False\<rparr>"

definition blank_material :: material where
  "blank_material =
     \<lparr>map_texture = None, emissive = None, needsUpdate = False, material_side = FrontSide\<rparr>"

definition blank_page :: page where
  "blank_page =
     \<lparr>innerWidth = 800, innerHeight = 600, loaded_objects = (\<lambda>r. blank_object),
      loaded_materials = (\<lambda>r. blank_material),
      page_infoPanel = \<lparr>panel_display = ''none'', object_name = [], object_details = []\<rparr>,
      page_loadingOverlay = \<lparr>overlay_hidden = False, overlay_error = None\<rparr>\<rparr>"

definition still :: orbit_update where
  "still c k = (c, k)"

text \<open>
  A model of two nodes: a group at \<open>Loaded 0\<close> and under it the mesh \<open>Loaded 1\<close>, two
  units wide, high and deep, standing on the plane \<open>y = 0\<close>; and the page that holds
  them, the mesh with a material that has an emissive colour.
\<close>

definition cube_model :: model3d where
  "cube_model =
     \<lparr>root = Loaded 0, nodes = [Loaded 1],
      extent = Box3 (Vector3 (- 1) 0 (- 1)) (Vector3 1 2 1)\<rparr>"

definition cube_page :: page where
  "cube_page = blank_page
     \<lparr>loaded_objects := (\<lambda>r. blank_object)
        (Loaded 1 := blank_object
           \<lparr>name := ''Cube'', isMesh := True, material := Some (LoadedMat 0)\<rparr>),
      loaded_materials := (\<lambda>r. blank_material)
        (LoadedMat 0 := blank_material\<lparr>emissive := Some 0\<rparr>)\<rparr>"

text \<open>
  A page with three meshes, each with a material of its own: the first two materials have an
  emissive colour, the third has none. And a hit of a ray, by distance and object.
\<close>

definition two_mesh_page :: page where
  "two_mesh_page = blank_page
     \<lparr>loaded_objects := (\<lambda>r. blank_object)
        (Loaded 1 := blank_object
           \<lparr>name := ''Wall'', isMesh := True, material := Some (LoadedMat 0)\<rparr>,
         Loaded 2 := blank_object
           \<lparr>name := ''Roof'', isMesh := True, material := Some (LoadedMat 1)\<rparr>,
         Loaded 3 := blank_object
           \<lparr>name := ''Sign'', isMesh := True, material := Some (LoadedMat 2)\<rparr>),
      loaded_materials := (\<lambda>r. blank_material)
        (LoadedMat 0 := blank_material\<lparr>emissive := Some 0\<rparr>,
         LoadedMat 1 := blank_material\<lparr>emissive := Some 0\<rparr>)\<rparr>"

definition hit :: "real \<Rightarrow> obj_ref \<Rightarrow> intersection" where
  "hit d ob = \<lparr>hit_distance = d, hit_object = ob\<rparr>"


text \<open>
  The same model with its mesh lifted by 5 under the root, which stays at the origin: the
  box of the geometry begins at the height 5.
\<close>

definition raised_model :: model3d where
  "raised_model =
     \<lparr>root = Loaded 0, nodes = [Loaded 1],
      extent = Box3 (Vector3 (- 1) 5 (- 1)) (Vector3 1 7 1)\<rparr>"

text \<open>A click in the upper right quarter of a canvas of 800 by 600 pixels.\<close>

definition click_upper_right :: click_event where
  "click_upper_right =
     \<lparr>clientX = 600, clientY = 150, rect_left = 0, rect_top = 0, rect_width = 800,
      rect_height = 600\<rparr>"

section \<open>Properties of the camera fitting\<close>

lemma orbit_step_fields [simp]:
  "model (orbit_step upd s) = model s"
  "initialized (orbit_step upd s) = initialized s"
  "objects (orbit_step upd s) = objects s"
  "materials (orbit_step upd s) = materials s"
  "mapMesh (orbit_step upd s) = mapMesh s"
  "selectedObject (orbit_step upd s) = selectedObject s"
  "infoPanel (orbit_step upd s) = infoPanel s"
  "camera (orbit_step upd s) = snd (upd (controls s) (camera s))"
  "controls (orbit_step upd s) = fst (upd (controls s) (camera s))"
  by (simp_all add: orbit_step_def split_def Let_def)

lemma position_enable_shadow [simp]:
  "position (objects (enable_shadow r s) q) = position (objects s q)"
  by (simp add: enable_shadow_def)

lemma camera_enable_shadow [simp]:
  "camera (enable_shadow r s) = camera s"
  by (simp add: enable_shadow_def)

lemma position_fold_enable_shadow [simp]:
  "position (objects (fold enable_shadow rs s) q) = position (objects s q)"
  by (induction rs arbitrary: s) simp_all

lemma camera_fold_enable_shadow [simp]:
  "camera (fold enable_shadow rs s) = camera s"
  by (induction rs arbitrary: s) simp_all

text \<open>
  What the assignment of line 166 does to the lowest point of the model: it ends at minus
  the height the root had before, so on the ground exactly when the root started at height 0.
\<close>

lemma groundModel_min_y:
  "vy (bmin (setFromObject m (groundModel m s))) = - vy (position (objects s (root m)))"
  by (simp add: groundModel_def setFromObject_def set_position_y_def box_translate_def
      vadd_def Let_def)




lemmas fixture_defs =
  SimpleModelViewer_def updateBackground_def orbit_step_def still_def HemisphereLight_def
  cube_model_def cube_page_def raised_model_def two_mesh_page_def blank_page_def
  blank_object_def blank_material_def click_upper_right_def hit_def pointer_ndc_def
  aim_ray_def

text \<open>The navigation controller at rest.\<close>

lemma OrbitControls_update_fields [simp]:
  "fst (OrbitControls_update c k) = c"
  "fov (snd (OrbitControls_update c k)) = fov k"
  "lookAt (snd (OrbitControls_update c k)) = Some (target c)"
  by (simp_all add: OrbitControls_update_def Let_def)




lemma vsub_vadd [simp]: "vsub (vadd a b) a = b"
  by (cases a, cases b) (simp add: vsub_def vadd_def)


lemma orbit_offset_rescale:
  fixes x y z r h :: real
  assumes r: "vlength (Vector3 x y z) = r" and r0: "0 < r"
    and h: "sqrt (x\<^sup>2 + z\<^sup>2) = h" and h0: "0 < h"
    and y0: "0 \<le> y"
    and eps: "0.000001 \<le> arccos (y / r)"
    and mp: "maxPolarAngle c = pi / 2"
  shows "orbit_offset c (Vector3 x y z)
         = multiplyScalar (Vector3 x y z) (clampDistance c r / r)"
proof -
  have r2: "r\<^sup>2 = x\<^sup>2 + y\<^sup>2 + z\<^sup>2"
  proof -
    have "0 \<le> x\<^sup>2 + y\<^sup>2 + z\<^sup>2" by simp
    then have "(sqrt (x\<^sup>2 + y\<^sup>2 + z\<^sup>2))\<^sup>2 = x\<^sup>2 + y\<^sup>2 + z\<^sup>2" by (rule real_sqrt_pow2)
    with r show ?thesis by (simp add: vlength_def)
  qed
  have h2: "h\<^sup>2 = x\<^sup>2 + z\<^sup>2"
  proof -
    have "0 \<le> x\<^sup>2 + z\<^sup>2" by simp
    then have "(sqrt (x\<^sup>2 + z\<^sup>2))\<^sup>2 = x\<^sup>2 + z\<^sup>2" by (rule real_sqrt_pow2)
    with h show ?thesis by simp
  qed
  have d: "r\<^sup>2 - y\<^sup>2 = h\<^sup>2" using r2 h2 by simp
  have "0 \<le> h\<^sup>2" by simp
  with d have "y\<^sup>2 \<le> r\<^sup>2" by linarith
  moreover have "0 \<le> r" using r0 by simp
  ultimately have yr: "y \<le> r" by (rule power2_le_imp_le)
  have u: "0 \<le> y / r" "y / r \<le> 1" using y0 r0 yr by simp_all
  have p1: "arccos (y / r) \<le> pi / 2" using u by (rule arccos_le_pi2)
  have p0: "0 \<le> arccos (y / r)" using eps by simp
  have p2: "arccos (y / r) \<le> pi - 0.000001" using p1 pi_ge_two by simp
  have pa: "polar_angle c (Vector3 x y z) = arccos (y / r)"
    using r0 p0 p1 p2 eps by (simp add: polar_angle_def Let_def r mp)
  have c: "cos (arccos (y / r)) = y / r" using u by simp
  have "1 - (y / r)\<^sup>2 = (r\<^sup>2 - y\<^sup>2) / r\<^sup>2"
    using r0 by (simp add: power_divide diff_divide_distrib)
  also have "\<dots> = (h / r)\<^sup>2" by (simp add: d power_divide)
  finally have "sqrt (1 - (y / r)\<^sup>2) = h / r"
    using r0 h0 by simp
  then have sn: "sin (arccos (y / r)) = h / r"
    using u by (simp add: sin_arccos)
  have az: "azimuth_sin (Vector3 x y z) = x / h" "azimuth_cos (Vector3 x y z) = z / h"
    using h0 by (simp_all add: azimuth_sin_def azimuth_cos_def h Let_def)
  show ?thesis
    using r0 h0 by (simp add: orbit_offset_def Let_def r pa c sn az multiplyScalar_def)
qed


lemma controls_enable_shadow [simp]:
  "controls (enable_shadow r s) = controls s"
  by (simp add: enable_shadow_def)

lemma controls_fold_enable_shadow [simp]:
  "controls (fold enable_shadow rs s) = controls s"
  by (induction rs arbitrary: s) simp_all



lemma constructed_fields [simp]:
  "model (SimpleModelViewer upd pg) = None"
  "initialized (SimpleModelViewer upd pg) = False"
  "objects (SimpleModelViewer upd pg) = loaded_objects pg"
  by (simp_all add: SimpleModelViewer_def updateBackground_def)

lemma constructed_at_rest [simp]:
  "fov (camera (SimpleModelViewer OrbitControls_update pg)) = 75"
  "controls (SimpleModelViewer OrbitControls_update pg)
   = \<lparr>target = Vector3 0 0 0, enableDamping = True, dampingFactor = 0.05,
      maxPolarAngle = pi / 2, minDistance = 50, maxDistance = 1000\<rparr>"
  by (simp_all add: SimpleModelViewer_def updateBackground_def)

lemma addModel_fields [simp]:
  "model (addModel m s) = Some m"
  "initialized (addModel m s) = initialized s"
  "objects (addModel m s) = objects s"
  "camera (addModel m s) = camera s"
  "controls (addModel m s) = controls s"
  by (simp_all add: addModel_def)







lemma OrbitControls_update_constructed:
  assumes tg: "target c = Vector3 0 0 0" and mp: "maxPolarAngle c = pi / 2"
    and mn: "minDistance c = 50" and mx: "maxDistance c = 1000"
    and cp: "camera_position k = Vector3 0 100 200"
  shows "OrbitControls_update c k = (c, k\<lparr>lookAt := Some (Vector3 0 0 0)\<rparr>)"
proof -
  define r where "r = vlength (Vector3 0 100 200)"
  have r2: "r = sqrt 50000" by (simp add: r_def vlength_def)
  have lo: "200 \<le> r" unfolding r2 by (rule real_le_rsqrt) simp
  have hi: "r \<le> 1000" unfolding r2 by (rule real_le_lsqrt) simp_all
  have r0: "0 < r" using lo by simp
  have h: "sqrt (0\<^sup>2 + 200\<^sup>2) = (200::real)" by simp
  have "0 \<le> 100 / r" using r0 by simp
  then have q: "- 1 \<le> 100 / r" by linarith
  have le: "100 / r \<le> 1 / 2" using lo r0 by (simp add: field_simps)
  have "arccos (1 / 2) \<le> arccos (100 / r)"
    by (rule arccos_le_arccos [OF q le]) simp
  moreover have "0.000001 \<le> pi / 3" using pi_ge_two by simp
  ultimately have eps: "0.000001 \<le> arccos (100 / r)" by simp
  have "orbit_offset c (Vector3 0 100 200)
        = multiplyScalar (Vector3 0 100 200) (clampDistance c r / r)"
    by (rule orbit_offset_rescale [OF r_def [symmetric] r0 h _ _ eps mp]) simp_all
  moreover have "clampDistance c r = r"
    using lo hi by (simp add: clampDistance_def mn mx)
  ultimately have "orbit_offset c (Vector3 0 100 200) = Vector3 0 100 200"
    using r0 by (simp add: multiplyScalar_def)
  then have "camera_position (snd (OrbitControls_update c k)) = camera_position k"
    by (simp add: OrbitControls_update_def Let_def vsub_def vadd_def tg cp)
  then show ?thesis
    by (simp add: OrbitControls_update_def Let_def tg)
qed

lemma constructed_at_rest_still:
  "SimpleModelViewer OrbitControls_update pg
   = (SimpleModelViewer still pg)
       \<lparr>camera := (camera (SimpleModelViewer still pg))\<lparr>lookAt := Some (Vector3 0 0 0)\<rparr>\<rparr>"
proof -
  define b where "b = (SimpleModelViewer still pg)"
  have u: "OrbitControls_update (controls b) (camera b)
           = (controls b, (camera b)\<lparr>lookAt := Some (Vector3 0 0 0)\<rparr>)"
    by (rule OrbitControls_update_constructed)
       (simp_all add: b_def SimpleModelViewer_def orbit_step_def still_def updateBackground_def)
  have "SimpleModelViewer OrbitControls_update pg = orbit_step OrbitControls_update b"
    by (simp add: b_def SimpleModelViewer_def orbit_step_def still_def updateBackground_def)
  also have "\<dots> = b\<lparr>camera := (camera b)\<lparr>lookAt := Some (Vector3 0 0 0)\<rparr>\<rparr>"
    by (simp add: orbit_step_def u)
  finally show ?thesis unfolding b_def .
qed




text \<open>
  C3. Once the fitting has run (the flag \<open>initialized\<close> is set), a further call of
  \<open>initializeModel\<close> returns the viewer state as it was: the camera's position and every
  other field are untouched, whatever the navigation controller would do. Calling it twice
  in a row is the same as calling it once, from any state.
\<close>

theorem initializeModel_repeat_noop:
  "(initialized s \<longrightarrow> initializeModel upd s = s) \<and>
   initializeModel upd (initializeModel upd s) = initializeModel upd s"
proof -
  have a: "initialized s \<Longrightarrow> initializeModel upd s = s"
    by (simp add: initializeModel_def split: option.splits)
  have b: "initializeModel upd (initializeModel upd s) = initializeModel upd s"
  proof (cases "model s")
    case None
    then show ?thesis by (simp add: initializeModel_def)
  next
    case (Some m)
    show ?thesis
    proof (cases "initialized s")
      case True
      then show ?thesis by (simp add: a)
    next
      case False
      have "initialized (initializeModel upd s)"
        using Some False by (simp add: initializeModel_def)
      then show ?thesis
        by (simp add: initializeModel_def split: option.splits)
    qed
  qed
  from a b show ?thesis by blast
qed

theorem initializeModel_repeat_noop_witness:
  "initialized (loadModel still (GltfLoaded cube_model) (SimpleModelViewer still cube_page)) \<and>
   initializeModel still
     (loadModel still (GltfLoaded cube_model) (SimpleModelViewer still cube_page))
   = loadModel still (GltfLoaded cube_model) (SimpleModelViewer still cube_page)"
proof -
  have h: "initialized
      (loadModel still (GltfLoaded cube_model) (SimpleModelViewer still cube_page))"
    by (simp add: loadModel_def addModel_def initializeModel_def hideLoadingScreen_def
        SimpleModelViewer_def)
  from initializeModel_repeat_noop
    [of "loadModel still (GltfLoaded cube_model) (SimpleModelViewer still cube_page)" still] h
  show ?thesis by blast
qed


text \<open>
  C2. The model is the scene the glTF loader returns, a group the loader has just made and
  left at the origin; whatever translation the file gives its nodes lies below that root
  and shows in the box of the geometry, which may begin at any height. From such a state
  the fitting leaves the lowest point of the recomputed box at the height 0, whatever the
  navigation controller does.
\<close>

theorem initializeModel_grounds_model:
  assumes "model s = Some m" and "\<not> initialized s"
    and "vy (position (objects s (root m))) = 0"
  shows "vy (bmin (setFromObject m (initializeModel upd s))) = 0"
proof -
  have "setFromObject m (initializeModel upd s) = setFromObject m (groundModel m s)"
    using assms(1,2)
    by (simp add: initializeModel_def setFromObject_def traverse_shadows_def orbit_step_def
        fitCamera_def Let_def split_def)
  then show ?thesis
    using assms(3) by (simp add: groundModel_min_y)
qed

theorem initializeModel_grounds_model_witness:
  "model (addModel raised_model (SimpleModelViewer OrbitControls_update cube_page))
     = Some raised_model \<and>
   \<not> initialized (addModel raised_model (SimpleModelViewer OrbitControls_update cube_page)) \<and>
   vy (position (objects (addModel raised_model
      (SimpleModelViewer OrbitControls_update cube_page)) (root raised_model))) = 0 \<and>
   vy (bmin (setFromObject raised_model
      (addModel raised_model (SimpleModelViewer OrbitControls_update cube_page)))) = 5 \<and>
   vy (bmin (setFromObject raised_model (initializeModel OrbitControls_update
      (addModel raised_model (SimpleModelViewer OrbitControls_update cube_page))))) = 0"
proof -
  define s where "s = addModel raised_model (SimpleModelViewer OrbitControls_update cube_page)"
  have h1: "model s = Some raised_model"
    by (simp add: s_def addModel_def)
  have h2: "\<not> initialized s"
    by (simp add: s_def addModel_def SimpleModelViewer_def updateBackground_def)
  have ob: "objects s = loaded_objects cube_page"
    by (simp add: s_def addModel_def SimpleModelViewer_def updateBackground_def)
  have h3: "vy (position (objects s (root raised_model))) = 0"
    by (simp add: ob raised_model_def cube_page_def blank_page_def blank_object_def)
  have b: "vy (bmin (setFromObject raised_model s)) = 5"
    by (simp add: setFromObject_def ob raised_model_def cube_page_def blank_page_def
        blank_object_def box_translate_def vadd_def)
  from initializeModel_grounds_model [OF h1 h2 h3, of OrbitControls_update] h1 h2 h3 b
  show ?thesis unfolding s_def by simp
qed

section \<open>Properties of the lighting\<close>

text \<open>
  Were \<^verbatim>\<open>skyColor\<close> a property of the hemisphere light, \<open>updateLighting\<close> would complete
  and leave all three lights at the values of one preset.
\<close>

lemma updateLighting_preset:
  assumes "skyColor (hemisphereLight s) \<noteq> None"
  shows "updateLighting s = Ok (s\<lparr>
      ambientLight := (ambientLight s)\<lparr>intensity := (if isNight s then 0.1 else 0.3)\<rparr>,
      directionalLight := (directionalLight s)
         \<lparr>intensity := (if isNight s then 0.3 else 1.5),
          light_position :=
            (if isNight s then Vector3 (- 100) 80 (- 50) else Vector3 100 150 50),
          color := (if isNight s then 0x6495ED else 0xffffff)\<rparr>,
      hemisphereLight := (hemisphereLight s)
         \<lparr>skyColor := Some (if isNight s then 0x0a1929 else 0x87CEEB),
          groundColor := (if isNight s then 0x1a1a2e else 0x6b5d47),
          intensity := (if isNight s then 0.2 else 0.5)\<rparr>\<rparr>)"
  using assms by (auto simp add: updateLighting_def hemisphere_preset_def Let_def)

lemma updateLighting_throws:
  assumes "skyColor (hemisphereLight s) = None"
  shows "\<exists>t. updateLighting s = Throw TypeError t \<and> hemisphereLight t = hemisphereLight s
      \<and> intensity (ambientLight t) = (if isNight s then 0.1 else 0.3)
      \<and> intensity (directionalLight t) = (if isNight s then 0.3 else 1.5)"
  using assms by (simp add: updateLighting_def hemisphere_preset_def Let_def)

text \<open>
  C5. Switching night mode on should leave the ambient, directional and hemisphere lights
  all at their night values and the background at \<open>0x0a1929\<close>. In the viewer as
  constructed, the listener sets the background, the ambient light and the directional
  light to the night values and then throws a TypeError at
  \<^verbatim>\<open>this.hemisphereLight.skyColor.set\<close>: the hemisphere light keeps its day colours and
  its day intensity 0.5.
\<close>

theorem night_toggle_mixes_presets:
  "nightModeChange True (SimpleModelViewer still blank_page)
   = Throw TypeError ((SimpleModelViewer still blank_page)
       \<lparr>isNight := True, scene_background := Some 0x0a1929,
        ambientLight := \<lparr>color = 0xffffff, intensity = 0.1\<rparr>,
        directionalLight := \<lparr>color = 0x6495ED, intensity = 0.3,
                            light_position = Vector3 (- 100) 80 (- 50),
                            light_castShadow = True\<rparr>\<rparr>)
   \<and> hemisphereLight (SimpleModelViewer still blank_page)
      = \<lparr>color = 0x87CEEB, intensity = 0.5, groundColor = 0x6b5d47, skyColor = None\<rparr>"
  by (simp add: nightModeChange_def updateLighting_def hemisphere_preset_def fixture_defs
      Let_def)

section \<open>Properties of the basemap manager\<close>

lemma createOrUpdateMap_first:
  assumes "mapMesh t = None"
  obtains t' where "createOrUpdateMap tex t = Ok t'"
    and "mapMesh t' = Some (Created (created t))"
    and "material (objects t' (Created (created t))) = Some (CreatedMat (created t))"
    and "map_texture (materials t' (CreatedMat (created t))) = Some tex"
    and "scene_children t' = scene_children t @ [Object (Created (created t))]"
    and "created t' = created t + 1"
proof -
  have "\<exists>t'. createOrUpdateMap tex t = Ok t'"
    using assms by (simp add: createOrUpdateMap_def Let_def)
  then obtain t' where t': "createOrUpdateMap tex t = Ok t'" ..
  have e: "t' = state_of (createOrUpdateMap tex t)" by (simp add: t' state_of_def)
  show ?thesis
  proof (rule that [of t'])
    show "createOrUpdateMap tex t = Ok t'" by (rule t')
    show "mapMesh t' = Some (Created (created t))"
      using assms by (simp add: e createOrUpdateMap_def state_of_def set_position_y_def Let_def)
    show "material (objects t' (Created (created t))) = Some (CreatedMat (created t))"
      using assms by (simp add: e createOrUpdateMap_def state_of_def set_position_y_def Let_def)
    show "map_texture (materials t' (CreatedMat (created t))) = Some tex"
      using assms by (simp add: e createOrUpdateMap_def state_of_def set_position_y_def Let_def)
    show "scene_children t' = scene_children t @ [Object (Created (created t))]"
      using assms by (simp add: e createOrUpdateMap_def state_of_def set_position_y_def Let_def)
    show "created t' = created t + 1"
      using assms by (simp add: e createOrUpdateMap_def state_of_def set_position_y_def Let_def)
  qed
qed

lemma createOrUpdateMap_swap:
  assumes "mapMesh t = Some mesh" "material (objects t mesh) = Some mat"
  obtains t' where "createOrUpdateMap tex t = Ok t'"
    and "mapMesh t' = mapMesh t" and "objects t' = objects t"
    and "map_texture (materials t' mat) = Some tex"
    and "scene_children t' = scene_children t" and "created t' = created t"
  using assms that by (simp add: createOrUpdateMap_def)

lemma single_ground_mesh_step:
  assumes inv: "single_ground_mesh s r"
  shows "single_ground_mesh s (basemap_step r ev)"
proof (cases ev)
  case (CallLoadBasemap type)
  with inv show ?thesis by (simp add: basemap_step_def single_ground_mesh_def Let_def)
next
  case (FetchSettles i outcome)
  show ?thesis
  proof (cases "i < length (inflight r)")
    case False
    with inv FetchSettles show ?thesis by (simp add: basemap_step_def)
  next
    case True
    define type where "type = inflight r ! i"
    show ?thesis
    proof (cases outcome)
      case FetchFailed
      with inv FetchSettles True show ?thesis
        by (simp add: basemap_step_def loadBasemap_def single_ground_mesh_def Let_def)
    next
      case FetchLoaded
      define tex where "tex = tile_texture (loaded_texture (basemap_url type))"
      show ?thesis
      proof (cases "resolved r = []")
        case True
        with inv have none: "mapMesh (current r) = None"
          and sc: "scene_children (current r) = scene_children s"
          and cr: "created (current r) = created s"
          by (simp_all add: single_ground_mesh_def Let_def)
        obtain t' where t': "createOrUpdateMap tex (current r) = Ok t'"
          and "mapMesh t' = Some (Created (created (current r)))"
          and "material (objects t' (Created (created (current r))))
               = Some (CreatedMat (created (current r)))"
          and "map_texture (materials t' (CreatedMat (created (current r)))) = Some tex"
          and "scene_children t'
               = scene_children (current r) @ [Object (Created (created (current r)))]"
          and "created t' = created (current r) + 1"
          by (rule createOrUpdateMap_first [OF none])
        then show ?thesis
          using FetchSettles FetchLoaded \<open>i < length (inflight r)\<close> True sc cr
          by (simp add: basemap_step_def loadBasemap_def single_ground_mesh_def Let_def
              tex_def type_def)
      next
        case False
        with inv have mm: "mapMesh (current r) = Some (Created (created s))"
          and mt: "material (objects (current r) (Created (created s)))
                   = Some (CreatedMat (created s))"
          and sc: "scene_children (current r)
                   = scene_children s @ [Object (Created (created s))]"
          and cr: "created (current r) = created s + 1"
          by (simp_all add: single_ground_mesh_def Let_def)
        obtain t' where t': "createOrUpdateMap tex (current r) = Ok t'"
          and "mapMesh t' = mapMesh (current r)" and "objects t' = objects (current r)"
          and "map_texture (materials t' (CreatedMat (created s))) = Some tex"
          and "scene_children t' = scene_children (current r)"
          and "created t' = created (current r)"
          by (rule createOrUpdateMap_swap [OF mm mt])
        then show ?thesis
          using FetchSettles FetchLoaded \<open>i < length (inflight r)\<close> False mm mt sc cr
          by (simp add: basemap_step_def loadBasemap_def single_ground_mesh_def Let_def
              tex_def type_def)
      qed
    qed
  qed
qed

text \<open>
  C4. Start from a viewer whose manager has no ground plane yet, and let any number of
  \<^verbatim>\<open>loadBasemap\<close> calls be made and their fetches end in any order. While no fetch has
  ended loaded there is no mesh. From the first one on, the manager holds the one mesh
  constructed then: the scene has gained exactly that child, exactly one object has been
  constructed, and the mesh's material carries the tiled texture of the kind whose fetch
  ended loaded last.
\<close>

theorem basemap_single_ground_mesh:
  assumes "mapMesh s = None"
  shows "single_ground_mesh s (basemap_events evs s)"
proof (induction evs rule: rev_induct)
  case Nil
  show ?case using assms by (simp add: basemap_events_def single_ground_mesh_def)
next
  case (snoc ev evs)
  have "basemap_events (evs @ [ev]) s = basemap_step (basemap_events evs s) ev"
    by (simp add: basemap_events_def)
  with snoc show ?case by (simp add: single_ground_mesh_step)
qed

theorem basemap_single_ground_mesh_witness:
  "mapMesh (SimpleModelViewer still blank_page) = None \<and>
   resolved (basemap_events [CallLoadBasemap ''osm'', CallLoadBasemap ''satellite'',
       FetchSettles 1 FetchLoaded, FetchSettles 0 FetchLoaded]
       (SimpleModelViewer still blank_page)) = [''satellite'', ''osm''] \<and>
   mapMesh (current (basemap_events [CallLoadBasemap ''osm'', CallLoadBasemap ''satellite'',
       FetchSettles 1 FetchLoaded, FetchSettles 0 FetchLoaded]
       (SimpleModelViewer still blank_page))) = Some (Created 0) \<and>
   scene_children (current (basemap_events [CallLoadBasemap ''osm'',
       CallLoadBasemap ''satellite'', FetchSettles 1 FetchLoaded, FetchSettles 0 FetchLoaded]
       (SimpleModelViewer still blank_page)))
     = [AmbientLightNode, DirectionalLightNode, HemisphereLightNode, Object (Created 0)] \<and>
   map_texture (materials (current (basemap_events [CallLoadBasemap ''osm'',
       CallLoadBasemap ''satellite'', FetchSettles 1 FetchLoaded, FetchSettles 0 FetchLoaded]
       (SimpleModelViewer still blank_page))) (CreatedMat 0))
     = Some \<lparr>image_src = ''https://a.tile.openstreetmap.org/0/0/0.png'',
             wrapS = RepeatWrapping, wrapT = RepeatWrapping, repeat_uv = (20, 20)\<rparr>"
proof -
  define s where "s = SimpleModelViewer still blank_page"
  define evs where "evs = [CallLoadBasemap ''osm'', CallLoadBasemap ''satellite'',
       FetchSettles 1 FetchLoaded, FetchSettles 0 FetchLoaded]"
  have h: "mapMesh s = None"
    by (simp add: s_def fixture_defs Let_def)
  have c: "created s = 0"
    by (simp add: s_def fixture_defs Let_def)
  have k: "scene_children s = [AmbientLightNode, DirectionalLightNode, HemisphereLightNode]"
    by (simp add: s_def fixture_defs Let_def)
  have r: "resolved (basemap_events evs s) = [''satellite'', ''osm'']"
    by (simp add: evs_def basemap_events_def basemap_step_def split_def Let_def)
  have u: "tile_texture (loaded_texture (basemap_url ''osm''))
           = \<lparr>image_src = ''https://a.tile.openstreetmap.org/0/0/0.png'',
              wrapS = RepeatWrapping, wrapT = RepeatWrapping, repeat_uv = (20, 20)\<rparr>"
    by (simp add: tile_texture_def loaded_texture_def basemap_url_def)
  from basemap_single_ground_mesh [OF h, of evs] h r c k u
  show ?thesis
    unfolding s_def [symmetric] evs_def [symmetric]
    by (simp add: single_ground_mesh_def Let_def)
qed

text \<open>
  C8. For every kind, the promise \<open>loadBasemap\<close> returns is rejected exactly when the
  fetch of the texture fails, and then with the load error the loader reports: the failure
  reaches the caller. On failure the viewer state is unchanged, so no mesh has been
  constructed and no texture applied.
\<close>

theorem loadBasemap_rejects_iff_fetch_fails:
  "(fst (loadBasemap type outcome s) = Rejected LoadError \<longleftrightarrow> outcome = FetchFailed) \<and>
   (\<forall>e. fst (loadBasemap type outcome s) = Rejected e \<longrightarrow> e = LoadError) \<and>
   (outcome = FetchFailed \<longrightarrow> snd (loadBasemap type outcome s) = s)"
  by (cases outcome) (simp_all add: loadBasemap_def Let_def split: result.splits)

theorem loadBasemap_rejects_iff_fetch_fails_witness:
  "fst (loadBasemap ''dark'' FetchFailed (SimpleModelViewer still blank_page))
     = Rejected LoadError \<and>
   snd (loadBasemap ''dark'' FetchFailed (SimpleModelViewer still blank_page))
     = SimpleModelViewer still blank_page"
  using loadBasemap_rejects_iff_fetch_fails
    [of "''dark''" FetchFailed "SimpleModelViewer still blank_page"]
  by simp

text \<open>
  C9. While the manager has no ground plane (no load has resolved yet), \<open>setVisible\<close>
  with either flag returns the viewer state unchanged and raises nothing.
\<close>

theorem setVisible_without_mesh:
  "mapMesh s = None \<Longrightarrow> setVisible flag s = s"
  by (simp add: setVisible_def)

theorem setVisible_without_mesh_witness:
  "mapMesh (SimpleModelViewer still blank_page) = None \<and>
   setVisible True (SimpleModelViewer still blank_page) = SimpleModelViewer still blank_page \<and>
   setVisible False (SimpleModelViewer still blank_page) = SimpleModelViewer still blank_page"
proof -
  have h: "mapMesh (SimpleModelViewer still blank_page) = None"
    by (simp add: fixture_defs Let_def)
  from setVisible_without_mesh [OF h, of True] setVisible_without_mesh [OF h, of False] h
  show ?thesis by simp
qed

section \<open>Properties of the picking\<close>

lemma paint_fields [simp]:
  "objects (paint mat c s) = objects s"
  "selectedObject (paint mat c s) = selectedObject s"
  "infoPanel (paint mat c s) = infoPanel s"
  "mouse (paint mat c s) = mouse s"
  by (simp_all add: paint_def)

lemma emissive_of_paint:
  "emissive_of (paint mat c s) ob
   = (if material (objects s ob) = Some mat then Some c else emissive_of s ob)"
  by (simp add: emissive_of_def paint_def split: option.splits)

lemma emissive_of_selected [simp]:
  "emissive_of (s\<lparr>selectedObject := x\<rparr>) ob = emissive_of s ob"
  by (simp add: emissive_of_def split: option.splits)

lemma emissive_set_supported:
  assumes "emissive_of s ob \<noteq> None"
  shows "\<exists>mat. material (objects s ob) = Some mat \<and> emissive_set ob c s = Ok (paint mat c s)"
proof (cases "material (objects s ob)")
  case None
  with assms show ?thesis by (simp add: emissive_of_def)
next
  case (Some mat)
  with assms obtain old where "emissive (materials s mat) = Some old"
    by (auto simp add: emissive_of_def)
  with Some show ?thesis by (simp add: emissive_set_def)
qed

lemma clearHighlight_None:
  "selectedObject s = None \<Longrightarrow> clearHighlight s = Ok s"
  by (simp add: clearHighlight_def)

lemma clearHighlight_unsupported:
  "selectedObject s = Some a \<Longrightarrow> emissive_of s a = None \<Longrightarrow> clearHighlight s = Ok s"
  by (simp add: clearHighlight_def)

lemma clearHighlight_supported:
  assumes "selectedObject s = Some a" "emissive_of s a \<noteq> None"
  shows "\<exists>mat. material (objects s a) = Some mat \<and> clearHighlight s = Ok (paint mat 0x000000 s)"
  using emissive_set_supported [OF assms(2), of "0x000000"] assms
  by (simp add: clearHighlight_def)

lemma applyHighlight_unsupported:
  "emissive_of s b = None \<Longrightarrow> applyHighlight b s = Ok s"
  by (simp add: applyHighlight_def)

lemma applyHighlight_supported:
  assumes "emissive_of s b \<noteq> None"
  shows "\<exists>mat. material (objects s b) = Some mat \<and> applyHighlight b s = Ok (paint mat 0xffd700 s)"
  using emissive_set_supported [OF assms, of "0xffd700"] assms
  by (simp add: applyHighlight_def)

lemma clearHighlight_result:
  obtains s1 where "clearHighlight s = Ok s1" and "objects s1 = objects s"
    and "\<forall>ob. emissive_of s1 ob = None \<longleftrightarrow> emissive_of s ob = None"
proof (cases "selectedObject s")
  case None
  then show ?thesis using that by (simp add: clearHighlight_None)
next
  case (Some a)
  show ?thesis
  proof (cases "emissive_of s a = None")
    case True
    with Some show ?thesis using that by (simp add: clearHighlight_unsupported)
  next
    case False
    from clearHighlight_supported [OF Some False]
    obtain mat where mat: "material (objects s a) = Some mat"
      and c: "clearHighlight s = Ok (paint mat 0x000000 s)" by (elim exE conjE)
    have "emissive_of (paint mat 0x000000 s) ob = None \<longleftrightarrow> emissive_of s ob = None" for ob
    proof (cases "material (objects s ob) = Some mat")
      case True
      then have "emissive_of s ob = emissive_of s a"
        using mat by (simp add: emissive_of_def)
      with False True show ?thesis by (simp add: emissive_of_paint)
    next
      case False
      then show ?thesis by (simp add: emissive_of_paint)
    qed
    then show ?thesis using that [of "paint mat 0x000000 s"] by (simp add: c)
  qed
qed

lemma applyHighlight_result:
  obtains s2 where "applyHighlight b s = Ok s2"
    and "emissive_of s b = None \<longrightarrow> s2 = s"
    and "emissive_of s b \<noteq> None \<longrightarrow> emissive_of s2 b = Some 0xffd700"
    and "\<forall>ob. material (objects s ob) \<noteq> material (objects s b) \<longrightarrow>
              emissive_of s2 ob = emissive_of s ob"
proof (cases "emissive_of s b = None")
  case True
  then show ?thesis using that [of s] by (simp add: applyHighlight_unsupported)
next
  case False
  from applyHighlight_supported [OF False]
  obtain mat where mat: "material (objects s b) = Some mat"
    and c: "applyHighlight b s = Ok (paint mat 0xffd700 s)" by (elim exE conjE)
  show ?thesis
  proof (rule that [of "paint mat 0xffd700 s"])
    show "applyHighlight b s = Ok (paint mat 0xffd700 s)" by (rule c)
    show "emissive_of s b = None \<longrightarrow> paint mat 0xffd700 s = s" using False by auto
    show "emissive_of s b \<noteq> None \<longrightarrow> emissive_of (paint mat 0xffd700 s) b = Some 0xffd700"
      using mat by (simp add: emissive_of_paint)
    show "\<forall>ob. material (objects s ob) \<noteq> material (objects s b) \<longrightarrow>
              emissive_of (paint mat 0xffd700 s) ob = emissive_of s ob"
      using mat by (simp add: emissive_of_paint)
  qed
qed

text \<open>
  C6. When an object \<open>a\<close> is selected and a click selects \<open>b\<close>, \<open>highlightObject\<close>
  runs to its end without an error, in this order: the emissive colour of \<open>a\<close> is reset
  to \<open>0x000000\<close> if \<open>a\<close> has a material with an emissive colour, and nothing is
  touched if it has not; then the emissive colour of \<open>b\<close> is set to \<open>0xffd700\<close> if
  \<open>b\<close> has one; then \<open>b\<close> becomes the selected object. When the two objects do not
  share their material, \<open>a\<close> still carries \<open>0x000000\<close> at the end.
\<close>

theorem highlightObject_resets_previous:
  assumes sel: "selectedObject s = Some a"
  shows "\<exists>s1 s2. clearHighlight s = Ok s1 \<and> applyHighlight b s1 = Ok s2 \<and>
     highlightObject b s = Ok (s2\<lparr>selectedObject := Some b\<rparr>) \<and>
     (emissive_of s a \<noteq> None \<longrightarrow> emissive_of s1 a = Some 0x000000) \<and>
     (emissive_of s a = None \<longrightarrow> s1 = s) \<and>
     (emissive_of s b \<noteq> None \<longrightarrow>
        emissive_of (s2\<lparr>selectedObject := Some b\<rparr>) b = Some 0xffd700) \<and>
     (emissive_of s a \<noteq> None \<and> material (objects s a) \<noteq> material (objects s b) \<longrightarrow>
        emissive_of (s2\<lparr>selectedObject := Some b\<rparr>) a = Some 0x000000)"
proof -
  obtain s1 where s1: "clearHighlight s = Ok s1" and o1: "objects s1 = objects s"
    and k1: "\<forall>ob. emissive_of s1 ob = None \<longleftrightarrow> emissive_of s ob = None"
    by (rule clearHighlight_result)
  have r1: "emissive_of s a \<noteq> None \<longrightarrow> emissive_of s1 a = Some 0x000000"
  proof
    assume sup: "emissive_of s a \<noteq> None"
    from clearHighlight_supported [OF sel sup]
    obtain mat where "material (objects s a) = Some mat"
      and "clearHighlight s = Ok (paint mat 0x000000 s)" by (elim exE conjE)
    with s1 have "material (objects s a) = Some mat" "s1 = paint mat 0x000000 s"
      by simp_all
    then show "emissive_of s1 a = Some 0x000000" by (simp add: emissive_of_paint)
  qed
  have r2: "emissive_of s a = None \<longrightarrow> s1 = s"
    using clearHighlight_unsupported [OF sel] s1 by auto
  obtain s2 where s2: "applyHighlight b s1 = Ok s2"
    and r0: "emissive_of s1 b = None \<longrightarrow> s2 = s1"
    and r3: "emissive_of s1 b \<noteq> None \<longrightarrow> emissive_of s2 b = Some 0xffd700"
    and r4: "\<forall>ob. material (objects s1 ob) \<noteq> material (objects s1 b) \<longrightarrow>
              emissive_of s2 ob = emissive_of s1 ob"
    by (rule applyHighlight_result)
  have h: "highlightObject b s = Ok (s2\<lparr>selectedObject := Some b\<rparr>)"
    by (simp add: highlightObject_def and_then_def s1 s2)
  have c6: "emissive_of s b \<noteq> None \<longrightarrow>
      emissive_of (s2\<lparr>selectedObject := Some b\<rparr>) b = Some 0xffd700"
    using r3 k1 by simp
  have c7: "emissive_of s a \<noteq> None \<and> material (objects s a) \<noteq> material (objects s b) \<longrightarrow>
      emissive_of (s2\<lparr>selectedObject := Some b\<rparr>) a = Some 0x000000"
    using r1 r4 by (simp add: o1)
  show ?thesis
    by (intro exI [of _ s1] exI [of _ s2] conjI s1 s2 h r1 r2 c6 c7)
qed

lemma highlightObject_total:
  "\<exists>t. highlightObject b s = Ok t \<and> selectedObject t = Some b \<and>
     (emissive_of s b = None \<longrightarrow> emissive_of t b = None)"
proof -
  obtain s1 where s1: "clearHighlight s = Ok s1" and o1: "objects s1 = objects s"
    and k1: "\<forall>ob. emissive_of s1 ob = None \<longleftrightarrow> emissive_of s ob = None"
    by (rule clearHighlight_result)
  obtain s2 where s2: "applyHighlight b s1 = Ok s2"
    and k2: "emissive_of s1 b = None \<longrightarrow> s2 = s1"
    and r3: "emissive_of s1 b \<noteq> None \<longrightarrow> emissive_of s2 b = Some 0xffd700"
    and r4: "\<forall>ob. material (objects s1 ob) \<noteq> material (objects s1 b) \<longrightarrow>
              emissive_of s2 ob = emissive_of s1 ob"
    by (rule applyHighlight_result)
  have h: "highlightObject b s = Ok (s2\<lparr>selectedObject := Some b\<rparr>)"
    by (simp add: highlightObject_def and_then_def s1 s2)
  have "emissive_of s b = None \<longrightarrow> emissive_of (s2\<lparr>selectedObject := Some b\<rparr>) b = None"
    using k1 k2 by auto
  then show ?thesis using h by simp
qed

lemma emissive_of_showObjectInfo [simp]:
  "emissive_of (showObjectInfo ob s) q = emissive_of s q"
  by (simp add: showObjectInfo_def emissive_of_def Let_def split: option.splits)

lemma emissive_of_aim_ray [simp]:
  "emissive_of (aim_ray event s) q = emissive_of s q"
  by (simp add: emissive_of_def aim_ray_def Let_def split: option.splits)

text \<open>
  C10. A click whose ray hits at least one object ends without an error and leaves the
  first hit selected, whether or not that object can be highlighted: an object without an
  emissive colour is selected and still has none. The first hit is the nearest one, the
  hits being sorted by distance.
\<close>

theorem onClick_selects_first_hit:
  assumes "intersects \<noteq> []"
  shows "\<exists>t. onClick event intersects s = Ok t \<and>
     selectedObject t = Some (hit_object (hd intersects)) \<and>
     (emissive_of s (hit_object (hd intersects)) = None \<longrightarrow>
        emissive_of t (hit_object (hd intersects)) = None) \<and>
     (sorted (map hit_distance intersects) \<longrightarrow>
        (\<forall>h \<in> set intersects. hit_distance (hd intersects) \<le> hit_distance h))"
proof -
  obtain i rest where i: "intersects = i # rest"
    using assms by (cases intersects) auto
  define s1 where "s1 = showObjectInfo (hit_object i) (aim_ray event s)"
  have oc: "onClick event intersects s = highlightObject (hit_object i) s1"
    by (simp add: onClick_def i s1_def Let_def)
  have em: "emissive_of s1 q = emissive_of s q" for q
    by (simp add: s1_def)
  from highlightObject_total [of "hit_object i" s1]
  obtain t where t: "highlightObject (hit_object i) s1 = Ok t" "selectedObject t = Some (hit_object i)"
     "emissive_of s1 (hit_object i) = None \<longrightarrow> emissive_of t (hit_object i) = None"
    by (elim exE conjE)
  have near: "sorted (map hit_distance intersects) \<longrightarrow>
        (\<forall>h \<in> set intersects. hit_distance (hd intersects) \<le> hit_distance h)"
    by (auto simp add: i)
  have hd: "hd intersects = i" by (simp add: i)
  from t em [of "hit_object i"] have
    "onClick event intersects s = Ok t \<and>
     selectedObject t = Some (hit_object i) \<and>
     (emissive_of s (hit_object i) = None \<longrightarrow> emissive_of t (hit_object i) = None)"
    by (simp add: oc)
  with near show ?thesis unfolding hd by (intro exI [of _ t]) simp
qed



theorem highlightObject_resets_previous_witness:
  "selectedObject (state_of (onClick click_upper_right [hit 3 (Loaded 1)]
      (SimpleModelViewer still two_mesh_page))) = Some (Loaded 1) \<and>
   emissive_of (state_of (onClick click_upper_right [hit 3 (Loaded 1)]
      (SimpleModelViewer still two_mesh_page))) (Loaded 1) = Some 0xffd700 \<and>
   (\<exists>s1 s2.
      clearHighlight (state_of (onClick click_upper_right [hit 3 (Loaded 1)]
        (SimpleModelViewer still two_mesh_page))) = Ok s1 \<and>
      applyHighlight (Loaded 2) s1 = Ok s2 \<and>
      highlightObject (Loaded 2) (state_of (onClick click_upper_right [hit 3 (Loaded 1)]
        (SimpleModelViewer still two_mesh_page))) = Ok (s2\<lparr>selectedObject := Some (Loaded 2)\<rparr>) \<and>
      emissive_of s1 (Loaded 1) = Some 0x000000 \<and>
      emissive_of (s2\<lparr>selectedObject := Some (Loaded 2)\<rparr>) (Loaded 2) = Some 0xffd700 \<and>
      emissive_of (s2\<lparr>selectedObject := Some (Loaded 2)\<rparr>) (Loaded 1) = Some 0x000000)"
proof -
  define s where "s = state_of (onClick click_upper_right [hit 3 (Loaded 1)]
      (SimpleModelViewer still two_mesh_page))"
  have s_eq: "s = paint (LoadedMat 0) 0xffd700
      (showObjectInfo (Loaded 1) (aim_ray click_upper_right (SimpleModelViewer still two_mesh_page)))
      \<lparr>selectedObject := Some (Loaded 1)\<rparr>"
    by (simp add: s_def onClick_def highlightObject_def clearHighlight_def applyHighlight_def
        emissive_set_def emissive_of_def and_then_def state_of_def showObjectInfo_def
        fixture_defs Let_def)
  have sel: "selectedObject s = Some (Loaded 1)"
    by (simp add: s_eq)
  have ob: "material (objects s (Loaded 1)) = Some (LoadedMat 0)"
    "material (objects s (Loaded 2)) = Some (LoadedMat 1)"
    by (simp_all add: s_eq showObjectInfo_def fixture_defs Let_def)
  have ea: "emissive_of s (Loaded 1) = Some 0xffd700"
    by (simp add: s_eq emissive_of_paint showObjectInfo_def fixture_defs Let_def)
  have eb: "emissive_of s (Loaded 2) = Some 0"
    by (simp add: s_eq emissive_of_def paint_def showObjectInfo_def fixture_defs Let_def)
  from highlightObject_resets_previous [OF sel, of "Loaded 2"] sel ea eb ob
  show ?thesis unfolding s_def [symmetric] by simp
qed

theorem onClick_selects_first_hit_witness:
  "[hit 3 (Loaded 3), hit 7 (Loaded 1)] \<noteq> [] \<and>
   emissive_of (SimpleModelViewer still two_mesh_page) (Loaded 3) = None \<and>
   sorted (map hit_distance [hit 3 (Loaded 3), hit 7 (Loaded 1)]) \<and>
   (\<exists>t. onClick click_upper_right [hit 3 (Loaded 3), hit 7 (Loaded 1)]
           (SimpleModelViewer still two_mesh_page) = Ok t \<and>
        selectedObject t = Some (Loaded 3) \<and> emissive_of t (Loaded 3) = None)"
proof -
  have h: "[hit 3 (Loaded 3), hit 7 (Loaded 1)] \<noteq> []" by simp
  have e: "emissive_of (SimpleModelViewer still two_mesh_page) (Loaded 3) = None"
    by (simp add: emissive_of_def fixture_defs Let_def)
  have so: "sorted (map hit_distance [hit 3 (Loaded 3), hit 7 (Loaded 1)])"
    by (simp add: hit_def)
  have hd: "hit_object (hd [hit 3 (Loaded 3), hit 7 (Loaded 1)]) = Loaded 3"
    by (simp add: hit_def)
  from onClick_selects_first_hit [OF h, of click_upper_right "SimpleModelViewer still two_mesh_page"]
    h e so
  show ?thesis unfolding hd by auto
qed

lemma aim_ray_fields [simp]:
  "selectedObject (aim_ray event s) = selectedObject s"
  "objects (aim_ray event s) = objects s"
  "materials (aim_ray event s) = materials s"
  "infoPanel (aim_ray event s) = infoPanel s"
  by (simp_all add: aim_ray_def Let_def)

text \<open>
  What a click writes into \<^verbatim>\<open>this.mouse\<close> and the raycaster is never read back:
  \<open>onClick\<close> overwrites both before it uses them, and no other function of the viewer
  reads them.
\<close>

lemma onClick_overwrites_scratch:
  "onClick event intersects (s\<lparr>mouse := m, raycaster := r\<rparr>) = onClick event intersects s"
  by (simp add: onClick_def aim_ray_def Let_def)

text \<open>
  C7. A click whose ray hits nothing throws nothing and leaves the selection, the
  highlight of every object, the info panel and every other field of the viewer as they
  were. The two things \<open>onClick\<close> writes before it looks at the hits are its own working
  values: the pointer vector \<^verbatim>\<open>this.mouse\<close>, set to the click's normalised device
  coordinates (for a canvas that is not empty), and the raycaster's ray, made from that
  vector and the camera.
\<close>

theorem onClick_no_hit_no_effect:
  "(\<exists>m r. onClick event [] s = Ok (s\<lparr>mouse := m, raycaster := r\<rparr>)) \<and>
   selectedObject (state_of (onClick event [] s)) = selectedObject s \<and>
   (\<forall>ob. emissive_of (state_of (onClick event [] s)) ob = emissive_of s ob) \<and>
   objects (state_of (onClick event [] s)) = objects s \<and>
   materials (state_of (onClick event [] s)) = materials s \<and>
   infoPanel (state_of (onClick event [] s)) = infoPanel s \<and>
   (rect_width event \<noteq> 0 \<and> rect_height event \<noteq> 0 \<longrightarrow>
      onClick event [] s
        = Ok (s\<lparr>mouse := pointer_ndc event,
                raycaster := Some (pointer_ndc event, camera s)\<rparr>))"
proof -
  have eq: "onClick event [] s
        = Ok (s\<lparr>mouse := pointer_ndc event, raycaster := Some (pointer_ndc event, camera s)\<rparr>)"
    by (simp add: onClick_def aim_ray_def Let_def)
  then have ex: "\<exists>m r. onClick event [] s = Ok (s\<lparr>mouse := m, raycaster := r\<rparr>)"
    by (intro exI)
  have st: "state_of (onClick event [] s) = aim_ray event s"
    by (simp add: onClick_def state_of_def Let_def)
  have c1: "selectedObject (state_of (onClick event [] s)) = selectedObject s"
    by (simp add: st)
  have c2: "\<forall>ob. emissive_of (state_of (onClick event [] s)) ob = emissive_of s ob"
    by (simp add: st)
  have c3: "objects (state_of (onClick event [] s)) = objects s"
    by (simp add: st)
  have c4: "materials (state_of (onClick event [] s)) = materials s"
    by (simp add: st)
  have c5: "infoPanel (state_of (onClick event [] s)) = infoPanel s"
    by (simp add: st)
  from ex c1 c2 c3 c4 c5 eq show ?thesis by blast
qed

theorem onClick_no_hit_no_effect_witness:
  "rect_width click_upper_right \<noteq> 0 \<and> rect_height click_upper_right \<noteq> 0 \<and>
   pointer_ndc click_upper_right = Vector2 (1 / 2) (1 / 2) \<and>
   onClick click_upper_right [] (SimpleModelViewer OrbitControls_update blank_page)
     = Ok ((SimpleModelViewer OrbitControls_update blank_page)
            \<lparr>mouse := Vector2 (1 / 2) (1 / 2),
             raycaster := Some (Vector2 (1 / 2) (1 / 2),
                                camera (SimpleModelViewer OrbitControls_update blank_page))\<rparr>) \<and>
   selectedObject (state_of (onClick click_upper_right []
       (SimpleModelViewer OrbitControls_update blank_page)))
     = selectedObject (SimpleModelViewer OrbitControls_update blank_page) \<and>
   infoPanel (state_of (onClick click_upper_right []
       (SimpleModelViewer OrbitControls_update blank_page)))
     = infoPanel (SimpleModelViewer OrbitControls_update blank_page)"
proof -
  have w: "rect_width click_upper_right \<noteq> 0" "rect_height click_upper_right \<noteq> 0"
    by (simp_all add: click_upper_right_def)
  have n: "pointer_ndc click_upper_right = Vector2 (1 / 2) (1 / 2)"
    by (simp add: pointer_ndc_def click_upper_right_def)
  from onClick_no_hit_no_effect
    [of click_upper_right "SimpleModelViewer OrbitControls_update blank_page"] w n
  show ?thesis by (simp add: state_of_def)
qed

end
